theory Spec2Isabelle
  imports Main "HOL-Library.Word" "HOL-Library.Sublist"
begin

section \<open>Data model of the timeline watchdog\<close>

text \<open>
  The program is a single Go file, \<^verbatim>\<open>main.go\<close>. Go strings are byte sequences and are
  modelled as \<^typ>\<open>string\<close>. The integer fields of the configuration have Go type
  \<^verbatim>\<open>int\<close>, which is 64 bits wide on the 64-bit targets (amd64, arm64);
  \<^verbatim>\<open>time.Duration\<close> is an \<^verbatim>\<open>int64\<close> count of nanoseconds. Both are
  \<^typ>\<open>64 word\<close>, read as two's complement with \<^const>\<open>sint\<close>; multiplication wraps, as
  the Go specification defines for signed integers.
\<close>

type_synonym go_int = "64 word"
type_synonym Duration = "64 word"

definition Second :: Duration where
  "Second = 1000000000"

definition Minute :: Duration where
  "Minute = 60 * Second"

record TargetConfig =
  Domain :: string
  URL :: string

record SentryConfig =
  DSN :: string

record Config =
  Target :: TargetConfig
  Timeout :: go_int
  Cooldown :: go_int
  Command :: string
  Sentry :: SentryConfig

text \<open>
  A Go \<^verbatim>\<open>error\<close> value: either one produced by a library call (identified by its
  text) or one built with \<^verbatim>\<open>fmt.Errorf\<close> from a format and, for \<^verbatim>\<open>%w\<close>, the wrapped
  cause. A nil error is \<^const>\<open>None\<close> of the option type over it.
\<close>

datatype go_error =
    LibError string
  | Errorf string "go_error option"

definition DefaultPath :: string where
  "DefaultPath = ''/streaming''"

definition SubscribePayload :: string where
  \<open>SubscribePayload =
     ''{"type":"connect","body":{"channel":"globalTimeline","id":"1","params":{"withRenotes":true,"minimize":true}}}''\<close>

section \<open>Target address resolution\<close>

text \<open>\<^verbatim>\<open>strings.HasPrefix\<close>, \<^verbatim>\<open>strings.HasSuffix\<close>, \<^verbatim>\<open>strings.TrimPrefix\<close> and
  \<^verbatim>\<open>strings.TrimSuffix\<close> of the Go standard library, on byte strings.\<close>

definition HasPrefix :: "string \<Rightarrow> string \<Rightarrow> bool" where
  "HasPrefix s p \<longleftrightarrow> length p \<le> length s \<and> take (length p) s = p"

definition HasSuffix :: "string \<Rightarrow> string \<Rightarrow> bool" where
  "HasSuffix s p \<longleftrightarrow> length p \<le> length s \<and> drop (length s - length p) s = p"

definition TrimPrefix :: "string \<Rightarrow> string \<Rightarrow> string" where
  "TrimPrefix s p = (if HasPrefix s p then drop (length p) s else s)"

definition TrimSuffix :: "string \<Rightarrow> string \<Rightarrow> string" where
  "TrimSuffix s p = (if HasSuffix s p then take (length s - length p) s else s)"

definition getTargetURL :: "Config \<Rightarrow> go_error + string" where
  "getTargetURL cfg =
     (if URL (Target cfg) \<noteq> [] then Inr (URL (Target cfg))
      else if Domain (Target cfg) \<noteq> [] then
        (let cleanDomain = TrimSuffix (TrimPrefix (Domain (Target cfg)) ''https://'') ''/''
         in Inr (''wss://'' @ cleanDomain @ DefaultPath))
      else Inl (Errorf ''target.domain or target.url must be specified in the configuration file'' None))"

section \<open>Durations taken from the configuration\<close>

text \<open>Lines 120 to 123 of \<^verbatim>\<open>main\<close>: the cooldown, with its default.\<close>

definition cooldownDuration :: "Config \<Rightarrow> Duration" where
  "cooldownDuration cfg =
     (if sint (Cooldown cfg) \<le> 0 then 5 * Minute else Cooldown cfg * Second)"

text \<open>Line 167 of \<^verbatim>\<open>startMonitoringSession\<close>: the idle timeout.\<close>

definition timeoutDuration :: "Config \<Rightarrow> Duration" where
  "timeoutDuration cfg = Timeout cfg * Second"

section \<open>Tokenizing the recovery command\<close>

text \<open>
  \<^verbatim>\<open>strings.Fields\<close> splits a string around runs of white space, as
  \<^verbatim>\<open>unicode.IsSpace\<close> defines it, and returns the non-empty pieces. The white-space runes
  are the six ASCII ones (tab, line feed, vertical tab, form feed, carriage return, space),
  U+0085, U+00A0, U+1680, U+2000 to U+200A, U+2028, U+2029, U+202F, U+205F and U+3000.
  On byte strings these are the byte sequences below (their UTF-8 encodings). Every byte
  after the first of a valid multi-byte rune is a continuation byte (0x80 to 0xBF), an invalid
  byte is consumed alone, and no sequence of the table starts with a continuation byte: so
  Go's decoder reaches every occurrence of a table entry at a rune boundary, and scanning
  byte by byte for the table entries splits exactly where Go does.
\<close>

definition whiteSpaceRunes :: "string list" where
  "whiteSpaceRunes =
     [[CHR 0x09], [CHR 0x0A], [CHR 0x0B], [CHR 0x0C], [CHR 0x0D], [CHR 0x20],
      [CHR 0xC2, CHR 0x85], [CHR 0xC2, CHR 0xA0],
      [CHR 0xE1, CHR 0x9A, CHR 0x80],
      [CHR 0xE2, CHR 0x80, CHR 0x80], [CHR 0xE2, CHR 0x80, CHR 0x81],
      [CHR 0xE2, CHR 0x80, CHR 0x82], [CHR 0xE2, CHR 0x80, CHR 0x83],
      [CHR 0xE2, CHR 0x80, CHR 0x84], [CHR 0xE2, CHR 0x80, CHR 0x85],
      [CHR 0xE2, CHR 0x80, CHR 0x86], [CHR 0xE2, CHR 0x80, CHR 0x87],
      [CHR 0xE2, CHR 0x80, CHR 0x88], [CHR 0xE2, CHR 0x80, CHR 0x89],
      [CHR 0xE2, CHR 0x80, CHR 0x8A],
      [CHR 0xE2, CHR 0x80, CHR 0xA8], [CHR 0xE2, CHR 0x80, CHR 0xA9],
      [CHR 0xE2, CHR 0x80, CHR 0xAF],
      [CHR 0xE2, CHR 0x81, CHR 0x9F],
      [CHR 0xE3, CHR 0x80, CHR 0x80]]"

text \<open>The white-space rune a string starts with, if it starts with one.\<close>

definition leadingSpace :: "string \<Rightarrow> string option" where
  "leadingSpace s = find (HasPrefix s) whiteSpaceRunes"

lemma leadingSpace_nonempty: "leadingSpace s = Some w \<Longrightarrow> w \<noteq> []"
  by (auto simp: leadingSpace_def find_Some_iff whiteSpaceRunes_def nth_Cons' split: if_splits)

text \<open>The scan of \<^verbatim>\<open>strings.Fields\<close>: \<open>cur\<close> is the field being read.\<close>

function fieldsFrom :: "string \<Rightarrow> string \<Rightarrow> string list" where
  "fieldsFrom cur [] = (if cur = [] then [] else [cur])"
| "fieldsFrom cur (c # s) =
     (case leadingSpace (c # s) of
        Some w \<Rightarrow> (if cur = [] then [] else [cur]) @ fieldsFrom [] (drop (length w) (c # s))
      | None \<Rightarrow> fieldsFrom (cur @ [c]) s)"
  by pat_completeness auto
termination
  by (relation "measure (\<lambda>(cur, s). length s)") (auto dest: leadingSpace_nonempty)

definition Fields :: "string \<Rightarrow> string list" where
  "Fields s = fieldsFrom [] s"

section \<open>Observable actions\<close>

text \<open>
  The program acts on the world through library calls only. A run is modelled by the list
  of the calls it makes, in order, and the results of the calls are given by the
  environment. Formatted text is kept as the format with its operands.
\<close>

datatype fmt_arg =
    ArgString string
  | ArgInt go_int
  | ArgDuration Duration
  | ArgError "go_error option"

datatype message =
    Plain string
  | Sprintf string "fmt_arg list"
  | Prefixed string message

datatype level = LevelInfo | LevelError | LevelFatal

datatype event =
    Log message
  | CaptureMessage message
  | ScopedCaptureMessage level "(string \<times> string) list" message
  | ScopedCaptureException level "(string \<times> string) list" "go_error option"
  | SentryInit string
  | SentryFlush Duration
  | Stat string
  | WriteFile string string
  | ReadFile string
  | Dial string
  | WriteMessage string
  | SetReadDeadline Duration
  | ReadMessage
  | Close
  | CombinedOutput string "string list"
  | Sleep Duration
  | Exit nat

text \<open>\<^verbatim>\<open>logPrintf\<close>: a local log line and a message to the telemetry sink.\<close>

definition logPrintf :: "message \<Rightarrow> event list" where
  "logPrintf msg = [Log msg, CaptureMessage msg]"

text \<open>\<^verbatim>\<open>logFatalf\<close>: log, report, flush for five seconds, exit with status 1.\<close>

definition logFatalf :: "message \<Rightarrow> event list" where
  "logFatalf msg =
     [Log (Prefixed ''FATAL: '' msg), CaptureMessage (Prefixed ''FATAL: '' msg),
      SentryFlush (5 * Second), Exit 1]"

text \<open>\<^verbatim>\<open>log.Fatalf\<close> of the standard library: print, then \<^verbatim>\<open>os.Exit(1)\<close>.\<close>

definition log_Fatalf :: "message \<Rightarrow> event list" where
  "log_Fatalf msg = [Log msg, Exit 1]"

section \<open>Recovery executor\<close>

text \<open>
  The environment's answer to \<^verbatim>\<open>cmd.CombinedOutput()\<close>: the merged output and the
  error, for the program and arguments launched.
\<close>

type_synonym runner = "string \<Rightarrow> string list \<Rightarrow> string \<times> go_error option"

definition executeCommandAndReport :: "string \<Rightarrow> runner \<Rightarrow> event list" where
  "executeCommandAndReport commandStr run =
     (case Fields commandStr of
        [] \<Rightarrow> logPrintf (Sprintf ''Error: Recovery command string is empty'' [])
      | prog # args \<Rightarrow>
          (case run prog args of (output, err) \<Rightarrow>
             [CombinedOutput prog args,
              Log (Sprintf (''Command Output:'' @ [CHR 0x0A] @ ''%s'') [ArgString output])] @
             (case err of
                Some e \<Rightarrow>
                  [ScopedCaptureException LevelFatal [(''command_output'', output)]
                     (Some (Errorf ''command failed: %w'' (Some e))),
                   Log (Sprintf ''command failed: %v'' [ArgError (Some e)])]
              | None \<Rightarrow>
                  [ScopedCaptureMessage LevelInfo [(''command_output'', output)]
                     (Sprintf ''command executed successfully: %s'' [ArgString prog]),
                   Log (Plain ''command executed successfully.'')])))"

section \<open>Monitoring session\<close>

text \<open>
  The environment of one session: the result of the dial, of the write of the subscription
  frame, and of the \<open>i\<close>-th deadline update and the \<open>i\<close>-th read of the loop. \<^const>\<open>None\<close> is
  a nil error.
\<close>

record conn_io =
  dial :: "string \<Rightarrow> go_error option"
  writeMessage :: "string \<Rightarrow> go_error option"
  setReadDeadline :: "nat \<Rightarrow> go_error option"
  readMessage :: "nat \<Rightarrow> go_error option"

text \<open>
  The read loop of lines 169 to 178. It has no exit but the two returns, so it may run
  forever: the result \<^const>\<open>None\<close> is a loop that never returns. \<open>SetReadDeadline d\<close> records
  a deadline of the current time plus \<open>d\<close>.
\<close>

partial_function (option) readLoop ::
  "conn_io \<Rightarrow> Duration \<Rightarrow> nat \<Rightarrow> event list \<Rightarrow> (event list \<times> go_error option) option"
where
  "readLoop io d i tr =
     (case setReadDeadline io i of
        Some err \<Rightarrow>
          Some (tr @ [SetReadDeadline d], Some (Errorf ''failed to set read deadline: %w'' (Some err)))
      | None \<Rightarrow>
          (case readMessage io i of
             Some err \<Rightarrow>
               Some (tr @ [SetReadDeadline d, ReadMessage],
                     Some (Errorf ''read timeout or disconnection: %w'' (Some err)))
           | None \<Rightarrow> readLoop io d (Suc i) (tr @ [SetReadDeadline d, ReadMessage])))"

declare readLoop.simps [code]

text \<open>
  \<^verbatim>\<open>startMonitoringSession\<close>. The deferred \<^verbatim>\<open>c.Close()\<close> runs on every return after a
  successful dial.
\<close>

definition startMonitoringSession ::
  "string \<Rightarrow> Config \<Rightarrow> conn_io \<Rightarrow> (event list \<times> go_error option) option"
where
  "startMonitoringSession url cfg io =
     (let tr0 = logPrintf (Sprintf ''Connecting to Misskey Streaming API...'' []) @ [Dial url] in
      case dial io url of
        Some err \<Rightarrow> Some (tr0, Some (Errorf ''connection failed: %w'' (Some err)))
      | None \<Rightarrow>
          (case writeMessage io SubscribePayload of
             Some err \<Rightarrow>
               Some (tr0 @ [WriteMessage SubscribePayload, Close],
                     Some (Errorf ''subscribe request failed: %w'' (Some err)))
           | None \<Rightarrow>
               map_option (\<lambda>(tr, r). (tr @ [Close], r))
                 (readLoop io (timeoutDuration cfg) 0
                    (tr0 @ [WriteMessage SubscribePayload] @
                     logPrintf (Sprintf ''Monitoring started (Listening for messages)...'' [])))))"

section \<open>Supervisor\<close>

text \<open>
  The environment of one iteration of the loop of \<^verbatim>\<open>main\<close>: the connection's answers and
  the recovery command's.
\<close>

record cycle_io =
  conn :: conn_io
  run :: runner

text \<open>One iteration of the loop of lines 127 to 149; \<^const>\<open>None\<close> when the session never returns.\<close>

definition main_cycle :: "string \<Rightarrow> Config \<Rightarrow> Duration \<Rightarrow> cycle_io \<Rightarrow> event list option" where
  "main_cycle targetURL cfg cooldown io =
     (case startMonitoringSession targetURL cfg (conn io) of
        None \<Rightarrow> None
      | Some (tr, err) \<Rightarrow>
          Some (tr @
            logPrintf (Sprintf ''Monitor session ended with error: %v'' [ArgError err]) @
            [ScopedCaptureException LevelError [] err] @
            logPrintf (Sprintf ''Attempting to execute command...'' []) @
            executeCommandAndReport (Command cfg) (run io) @
            logPrintf (Sprintf ''>>> Waiting %s before reconnecting...'' [ArgDuration cooldown]) @
            [SentryFlush (5 * Second), Sleep cooldown] @
            logPrintf (Sprintf ''>>> Cooldown finished. Retrying connection...'' [])))"

text \<open>
  The loop has no exit. Its first iterations, one for each environment of the list, give a
  finite prefix of the run.
\<close>

fun main_loop :: "string \<Rightarrow> Config \<Rightarrow> Duration \<Rightarrow> cycle_io list \<Rightarrow> event list option" where
  "main_loop targetURL cfg cooldown [] = Some []"
| "main_loop targetURL cfg cooldown (io # ios) =
     (case main_cycle targetURL cfg cooldown io of
        None \<Rightarrow> None
      | Some tr \<Rightarrow> map_option ((@) tr) (main_loop targetURL cfg cooldown ios))"

section \<open>Startup\<close>

definition DefaultConfigTemplate :: string where
  "DefaultConfigTemplate = concat (map (\<lambda>l. l @ [CHR 0x0A])
     [''target:'',
      ''  domain: '' @ [CHR 0x27, CHR 0x27] @ '' # Required (e.g., misskey.io)'',
      ''  # url: '' @ [CHR 0x27, CHR 0x27] @
        '' # Optional: Overrides domain if set (e.g., wss://misskey.io/streaming)'',
      ''timeout: 10'',
      ''cooldown: 300 # Seconds to wait before reconnecting after a failure'',
      ''command: ./script.sh'',
      ''sentry:'',
      ''  dsn: '' @ [CHR 0x27, CHR 0x27] @ '' # e.g. https://public@sentry.example.com/1''])"

text \<open>
  The environment at startup: what \<^verbatim>\<open>os.Stat\<close> finds at a path, the results of writing and
  reading a file, of \<^verbatim>\<open>yaml.Unmarshal\<close> into a zero \<^verbatim>\<open>Config\<close>, and of
  \<^verbatim>\<open>sentry.Init\<close>.
\<close>

datatype stat_result = StatOK | StatNotExist | StatError go_error

record os_io =
  osStat :: "string \<Rightarrow> stat_result"
  osWriteFile :: "string \<Rightarrow> string \<Rightarrow> go_error option"
  osReadFile :: "string \<Rightarrow> go_error + string"
  yamlUnmarshal :: "string \<Rightarrow> go_error + Config"
  sentryInit :: "string \<Rightarrow> go_error option"

definition loadConfig :: "string \<Rightarrow> os_io \<Rightarrow> go_error + Config" where
  "loadConfig path os =
     (case osReadFile os path of
        Inl err \<Rightarrow> Inl err
      | Inr data \<Rightarrow>
          (case yamlUnmarshal os data of
             Inl err \<Rightarrow> Inl err
           | Inr cfg \<Rightarrow> Inr cfg))"

text \<open>
  \<^verbatim>\<open>main\<close>, for the configuration path given by the flag: the calls made until the process
  exits or, when it reaches the loop, until the end of the iterations given. The result of
  \<^verbatim>\<open>os.WriteFile\<close> is discarded, as in the source. The deferred flush of line 111 never
  runs: \<^verbatim>\<open>main\<close> does not return, and \<^verbatim>\<open>os.Exit\<close> skips deferred calls.
\<close>

definition main :: "string \<Rightarrow> os_io \<Rightarrow> cycle_io list \<Rightarrow> event list option" where
  "main configPath os ios =
     (if osStat os configPath = StatNotExist then
        (case osWriteFile os configPath DefaultConfigTemplate of _ \<Rightarrow>
           Some ([Stat configPath, WriteFile configPath DefaultConfigTemplate] @
                 log_Fatalf (Sprintf ''Configuration file not found. Created sample at: %s''
                               [ArgString configPath])))
      else
        (case loadConfig configPath os of
           Inl err \<Rightarrow>
             Some ([Stat configPath, ReadFile configPath] @
                   log_Fatalf (Sprintf ''Failed to load configuration: %v'' [ArgError (Some err)]))
         | Inr cfg \<Rightarrow>
             (let tr1 = [Stat configPath, ReadFile configPath] @
                    (if DSN (Sentry cfg) \<noteq> [] then
                       SentryInit (DSN (Sentry cfg)) #
                       (case sentryInit os (DSN (Sentry cfg)) of
                          Some err \<Rightarrow>
                            [Log (Sprintf ''Sentry initialization failed: %v'' [ArgError (Some err)])]
                        | None \<Rightarrow> logPrintf (Sprintf ''Sentry initialized successfully.'' []))
                     else [])
              in case getTargetURL cfg of
                   Inl err \<Rightarrow>
                     Some (tr1 @ logFatalf (Sprintf ''Configuration Error: %v'' [ArgError (Some err)]))
                 | Inr targetURL \<Rightarrow>
                     map_option
                       (\<lambda>tr. tr1 @
                          logPrintf (Sprintf ''Configuration Loaded. Target: %s, Timeout: %ds, Cooldown: %s''
                            [ArgString targetURL, ArgInt (Timeout cfg),
                             ArgDuration (cooldownDuration cfg)]) @ tr)
                       (main_loop targetURL cfg (cooldownDuration cfg) ios))))"

section \<open>Reading a JSON text\<close>

text \<open>
  The subscription payload is a JSON text and the remote service reads it as one. The
  reader below covers the part of the JSON grammar (RFC 8259) made of objects, strings with the
  two-character escapes, and the literals \<^verbatim>\<open>true\<close>, \<^verbatim>\<open>false\<close> and \<^verbatim>\<open>null\<close>, with
  white space allowed between tokens; it rejects everything else. The fuel bounds the
  nesting depth and the number of members.
\<close>

datatype json =
    JNull
  | JBool bool
  | JString string
  | JObject "(string \<times> json) list"

definition skipWs :: "string \<Rightarrow> string" where
  "skipWs s = dropWhile (\<lambda>c. c \<in> {CHR 0x20, CHR 0x09, CHR 0x0A, CHR 0x0D}) s"

definition expect :: "char \<Rightarrow> string \<Rightarrow> string option" where
  "expect c s = (case skipWs s of [] \<Rightarrow> None | d # r \<Rightarrow> if d = c then Some r else None)"

definition unescape :: "char \<Rightarrow> char option" where
  "unescape e =
     (if e = CHR 0x22 \<or> e = CHR 0x5C \<or> e = CHR ''/'' then Some e
      else if e = CHR ''b'' then Some (CHR 0x08)
      else if e = CHR ''f'' then Some (CHR 0x0C)
      else if e = CHR ''n'' then Some (CHR 0x0A)
      else if e = CHR ''r'' then Some (CHR 0x0D)
      else if e = CHR ''t'' then Some (CHR 0x09)
      else None)"

text \<open>The characters of a string, read from after its opening quote to its closing quote.\<close>

fun parseString :: "string \<Rightarrow> (string \<times> string) option" where
  "parseString [] = None"
| "parseString (c # s) =
     (if c = CHR 0x22 then Some ([], s)
      else if c = CHR 0x5C then
        (case s of
           [] \<Rightarrow> None
         | e # s' \<Rightarrow>
             (case unescape e of
                None \<Rightarrow> None
              | Some c' \<Rightarrow> map_option (apfst ((#) c')) (parseString s')))
      else if (of_char c :: nat) < 32 then None
      else map_option (apfst ((#) c)) (parseString s))"

fun parseValue :: "nat \<Rightarrow> string \<Rightarrow> (json \<times> string) option"
  and parseMembers :: "nat \<Rightarrow> string \<Rightarrow> ((string \<times> json) list \<times> string) option"
where
  "parseValue 0 s = None"
| "parseValue (Suc n) s =
     (case skipWs s of
        [] \<Rightarrow> None
      | c # r \<Rightarrow>
          if c = CHR ''{'' then
            (case expect (CHR ''}'') r of
               Some r' \<Rightarrow> Some (JObject [], r')
             | None \<Rightarrow> map_option (apfst JObject) (parseMembers n r))
          else if c = CHR 0x22 then map_option (apfst JString) (parseString r)
          else if HasPrefix (c # r) ''true'' then Some (JBool True, drop 4 (c # r))
          else if HasPrefix (c # r) ''false'' then Some (JBool False, drop 5 (c # r))
          else if HasPrefix (c # r) ''null'' then Some (JNull, drop 4 (c # r))
          else None)"
| "parseMembers 0 s = None"
| "parseMembers (Suc n) s =
     (case expect (CHR 0x22) s of
        None \<Rightarrow> None
      | Some r1 \<Rightarrow>
          (case parseString r1 of
             None \<Rightarrow> None
           | Some (k, r2) \<Rightarrow>
               (case expect (CHR '':'') r2 of
                  None \<Rightarrow> None
                | Some r3 \<Rightarrow>
                    (case parseValue n r3 of
                       None \<Rightarrow> None
                     | Some (v, r4) \<Rightarrow>
                         (case expect (CHR '','') r4 of
                            Some r5 \<Rightarrow> map_option (apfst ((#) (k, v))) (parseMembers n r5)
                          | None \<Rightarrow>
                              (case expect (CHR ''}'') r4 of
                                 Some r6 \<Rightarrow> Some ([(k, v)], r6)
                               | None \<Rightarrow> None))))))"

definition parseJSON :: "string \<Rightarrow> json option" where
  "parseJSON s =
     (case parseValue (length s) s of
        None \<Rightarrow> None
      | Some (v, r) \<Rightarrow> if skipWs r = [] then Some v else None)"

text \<open>The member of an object with a given name.\<close>

fun json_member :: "string \<Rightarrow> json \<Rightarrow> json option" where
  "json_member k (JObject kvs) = map_of kvs k"
| "json_member k _ = None"

section \<open>Notions of the specification\<close>

text \<open>
  \<open>without_prefix p s t\<close>: \<open>t\<close> is \<open>s\<close> with the leading \<open>p\<close> removed when \<open>s\<close> starts with
  \<open>p\<close>, and \<open>s\<close> itself otherwise; \<open>without_suffix\<close> likewise at the end.
\<close>

definition without_prefix :: "string \<Rightarrow> string \<Rightarrow> string \<Rightarrow> bool" where
  "without_prefix p s t \<longleftrightarrow> (if prefix p s then s = p @ t else t = s)"

definition without_suffix :: "string \<Rightarrow> string \<Rightarrow> string \<Rightarrow> bool" where
  "without_suffix p s t \<longleftrightarrow> (if suffix p s then s = t @ p else t = s)"

text \<open>
  The specification speaks of stripping any leading scheme prefix. Following its words: a
  scheme prefix is a non-empty text without a colon followed by \<^verbatim>\<open>://\<close>, and the cleaned
  domain is the domain without it and without one trailing slash.
\<close>

definition claimed_stripScheme :: "string \<Rightarrow> string" where
  "claimed_stripScheme d =
     (let scheme = takeWhile (\<lambda>c. c \<noteq> CHR '':'') d; rest = dropWhile (\<lambda>c. c \<noteq> CHR '':'') d
      in if scheme \<noteq> [] \<and> HasPrefix rest ''://'' then drop 3 rest else d)"

definition claimed_cleanDomain :: "string \<Rightarrow> string" where
  "claimed_cleanDomain d = TrimSuffix (claimed_stripScheme d) ''/''"

section \<open>Example configurations\<close>

text \<open>The values of the configuration template, with a given domain.\<close>

definition domainConfig :: "string \<Rightarrow> Config" where
  "domainConfig d =
     \<lparr>Target = \<lparr>Domain = d, URL = []\<rparr>, Timeout = 10, Cooldown = 300,
      Command = ''./script.sh'', Sentry = \<lparr>DSN = []\<rparr>\<rparr>"

definition overrideConfig :: Config where
  "overrideConfig =
     \<lparr>Target = \<lparr>Domain = ''misskey.io'', URL = ''wss://example.test/socket''\<rparr>, Timeout = 10,
      Cooldown = 300, Command = ''./script.sh'', Sentry = \<lparr>DSN = []\<rparr>\<rparr>"

section \<open>Reading a run\<close>

text \<open>
  What a list of calls contains: the frames written to the connection, the addresses dialled,
  the processes launched, the sleeps, the exits and the read deadlines, each in order.
\<close>

definition sends :: "event list \<Rightarrow> string list" where
  "sends tr = concat (map (\<lambda>e. case e of WriteMessage p \<Rightarrow> [p] | _ \<Rightarrow> []) tr)"

definition dials :: "event list \<Rightarrow> string list" where
  "dials tr = concat (map (\<lambda>e. case e of Dial u \<Rightarrow> [u] | _ \<Rightarrow> []) tr)"

definition launches :: "event list \<Rightarrow> (string \<times> string list) list" where
  "launches tr = concat (map (\<lambda>e. case e of CombinedOutput p a \<Rightarrow> [(p, a)] | _ \<Rightarrow> []) tr)"

definition sleeps :: "event list \<Rightarrow> Duration list" where
  "sleeps tr = concat (map (\<lambda>e. case e of Sleep d \<Rightarrow> [d] | _ \<Rightarrow> []) tr)"

definition exits :: "event list \<Rightarrow> nat list" where
  "exits tr = concat (map (\<lambda>e. case e of Exit n \<Rightarrow> [n] | _ \<Rightarrow> []) tr)"

definition deadlines :: "event list \<Rightarrow> Duration list" where
  "deadlines tr = concat (map (\<lambda>e. case e of SetReadDeadline d \<Rightarrow> [d] | _ \<Rightarrow> []) tr)"

text \<open>A string that is empty or made of white-space runes only.\<close>

inductive whitespaceOnly :: "string \<Rightarrow> bool" where
  empty: "whitespaceOnly []"
| space: "w \<in> set whiteSpaceRunes \<Longrightarrow> whitespaceOnly s \<Longrightarrow> whitespaceOnly (w @ s)"

text \<open>
  What the read loop can return when entered with the calls \<open>tr\<close> already made: \<open>tr\<close>
  followed by deadline updates and reads only, and one of its two errors.
\<close>

definition loop_result :: "Duration \<Rightarrow> event list \<Rightarrow> event list \<times> go_error option \<Rightarrow> bool" where
  "loop_result d tr y \<longleftrightarrow>
     (\<exists>ks. fst y = tr @ ks \<and> sends ks = [] \<and> set ks \<subseteq> {SetReadDeadline d, ReadMessage}) \<and>
     (\<exists>e. snd y = Some (Errorf ''failed to set read deadline: %w'' (Some e)) \<or>
          snd y = Some (Errorf ''read timeout or disconnection: %w'' (Some e)))"

section \<open>Example environments\<close>

text \<open>A connection on which everything succeeds until read number \<open>n\<close> times out.\<close>

definition timeoutAt :: "nat \<Rightarrow> conn_io" where
  "timeoutAt n =
     \<lparr>dial = (\<lambda>_. None), writeMessage = (\<lambda>_. None), setReadDeadline = (\<lambda>_. None),
      readMessage = (\<lambda>i. if i = n then Some (LibError ''i/o timeout'') else None)\<rparr>"

text \<open>A remote that refuses the connection, and a recovery command that succeeds silently.\<close>

definition refusing :: cycle_io where
  "refusing =
     \<lparr>conn = \<lparr>dial = (\<lambda>_. Some (LibError ''connection refused'')), writeMessage = (\<lambda>_. None),
              setReadDeadline = (\<lambda>_. None), readMessage = (\<lambda>_. None)\<rparr>,
      run = (\<lambda>_ _. ([], None))\<rparr>"

text \<open>A file system without the configuration file, in which no file can be written.\<close>

definition readOnlyEmpty :: os_io where
  "readOnlyEmpty =
     \<lparr>osStat = (\<lambda>_. StatNotExist),
      osWriteFile = (\<lambda>_ _. Some (LibError ''read-only file system'')),
      osReadFile = (\<lambda>_. Inl (LibError ''no such file or directory'')),
      yamlUnmarshal = (\<lambda>_. Inr (domainConfig ''misskey.io'')),
      sentryInit = (\<lambda>_. None)\<rparr>"

section \<open>The library functions on strings\<close>

lemma HasPrefix_iff: "HasPrefix s p \<longleftrightarrow> prefix p s"
  by (auto simp: HasPrefix_def prefix_def) (metis append_take_drop_id)

lemma HasSuffix_iff: "HasSuffix s p \<longleftrightarrow> suffix p s"
  by (auto simp: HasSuffix_def suffix_def) (metis append_take_drop_id)

lemma without_prefix_iff: "without_prefix p s t \<longleftrightarrow> t = TrimPrefix s p"
  by (auto simp: without_prefix_def TrimPrefix_def HasPrefix_iff prefix_def)

lemma without_suffix_iff: "without_suffix p s t \<longleftrightarrow> t = TrimSuffix s p"
  by (auto simp: without_suffix_def TrimSuffix_def HasSuffix_iff suffix_def)

section \<open>Effective durations\<close>

text \<open>
  C1 (idle timeout and cooldown strictly positive in effect). The cooldown has a default
  for configured values that are zero or negative; the idle timeout has none. With
  \<^verbatim>\<open>timeout\<close> unset or zero, the duration used for the read deadline is zero, so that
  every deadline set is the current time; a negative value is used as it is.
\<close>

theorem timeoutDuration_not_defaulted:
  "timeoutDuration (domainConfig ''misskey.io''\<lparr>Timeout := 0\<rparr>) = 0 \<and>
   sint (timeoutDuration (domainConfig ''misskey.io''\<lparr>Timeout := - 3\<rparr>)) = - 3000000000 \<and>
   map_option (deadlines \<circ> fst)
     (startMonitoringSession ''wss://misskey.io/streaming''
        (domainConfig ''misskey.io''\<lparr>Timeout := 0\<rparr>) (timeoutAt 0)) =
     Some [0]"
  by (simp add: domainConfig_def timeoutDuration_def Second_def startMonitoringSession_def
      timeoutAt_def readLoop.simps logPrintf_def deadlines_def)

text \<open>
  C4, amended (effective cooldown). For every configured cooldown \<open>C \<le> 0\<close> the effective
  cooldown is exactly five minutes, that is 300 * 10^9 nanoseconds, a positive value. For
  \<open>0 < C \<le> 9223372036\<close>, the largest number of seconds whose nanoseconds fit the 64-bit
  duration, it is \<open>C\<close> seconds.
\<close>

theorem cooldownDuration_effective:
  "(sint (Cooldown cfg) \<le> 0 \<longrightarrow>
      cooldownDuration cfg = 5 * Minute \<and> sint (cooldownDuration cfg) = 300 * 1000000000) \<and>
   (0 < sint (Cooldown cfg) \<and> sint (Cooldown cfg) \<le> 9223372036 \<longrightarrow>
      sint (cooldownDuration cfg) = sint (Cooldown cfg) * 1000000000)"
proof (intro conjI impI)
  assume "sint (Cooldown cfg) \<le> 0"
  then show "cooldownDuration cfg = 5 * Minute"
    by (simp add: cooldownDuration_def)
  then show "sint (cooldownDuration cfg) = 300 * 1000000000"
    by (simp add: Minute_def Second_def)
next
  assume r: "0 < sint (Cooldown cfg) \<and> sint (Cooldown cfg) \<le> 9223372036"
  then have "sint (Cooldown cfg * 1000000000) = sint (Cooldown cfg) * 1000000000"
    by (simp add: sint_word_ariths signed_take_bit_int_eq_self)
  with r show "sint (cooldownDuration cfg) = sint (Cooldown cfg) * 1000000000"
    by (simp add: cooldownDuration_def Second_def)
qed

theorem cooldownDuration_effective_witness:
  "sint (Cooldown (domainConfig ''misskey.io''\<lparr>Cooldown := - 7\<rparr>)) \<le> 0 \<and>
   sint (cooldownDuration (domainConfig ''misskey.io''\<lparr>Cooldown := - 7\<rparr>)) = 300000000000 \<and>
   0 < sint (Cooldown (domainConfig ''misskey.io'')) \<and>
   sint (Cooldown (domainConfig ''misskey.io'')) \<le> 9223372036 \<and>
   sint (cooldownDuration (domainConfig ''misskey.io'')) = 300000000000"
  using cooldownDuration_effective [of "domainConfig ''misskey.io''\<lparr>Cooldown := - 7\<rparr>"]
    cooldownDuration_effective [of "domainConfig ''misskey.io''"]
  by (simp add: domainConfig_def Minute_def Second_def)

text \<open>
  As the specification words it, the cooldown is \<open>C\<close> seconds for every \<open>C > 0\<close>. At \<open>C = 9223372037\<close> the product
  with 10^9 leaves the 64-bit range and wraps to a negative duration.
\<close>

theorem cooldownDuration_overflow_counterexample:
  "0 < sint (Cooldown (domainConfig ''misskey.io''\<lparr>Cooldown := 9223372037\<rparr>)) \<and>
   sint (cooldownDuration (domainConfig ''misskey.io''\<lparr>Cooldown := 9223372037\<rparr>)) =
     - 9223372036709551616 \<and>
   sint (cooldownDuration (domainConfig ''misskey.io''\<lparr>Cooldown := 9223372037\<rparr>)) \<noteq>
     sint (Cooldown (domainConfig ''misskey.io''\<lparr>Cooldown := 9223372037\<rparr>)) * 1000000000"
  by (simp add: domainConfig_def cooldownDuration_def Second_def)

section \<open>Target address resolution: properties\<close>

text \<open>
  C5 (precedence of the URL). When both the URL and the domain are set, the result is the
  URL unchanged, and replacing the domain by any other value leaves the result as it is.
\<close>

theorem getTargetURL_url_precedence:
  "URL (Target cfg) \<noteq> [] \<Longrightarrow> Domain (Target cfg) \<noteq> [] \<Longrightarrow>
   getTargetURL cfg = Inr (URL (Target cfg)) \<and>
   (\<forall>d. getTargetURL (cfg\<lparr>Target := (Target cfg)\<lparr>Domain := d\<rparr>\<rparr>) = getTargetURL cfg)"
  by (simp add: getTargetURL_def)

theorem getTargetURL_url_precedence_witness:
  "URL (Target overrideConfig) \<noteq> [] \<and> Domain (Target overrideConfig) \<noteq> [] \<and>
   getTargetURL overrideConfig = Inr ''wss://example.test/socket'' \<and>
   getTargetURL (overrideConfig\<lparr>Target := (Target overrideConfig)\<lparr>Domain := ''other.example''\<rparr>\<rparr>) =
     Inr ''wss://example.test/socket''"
proof -
  have u: "URL (Target overrideConfig) \<noteq> []" and d: "Domain (Target overrideConfig) \<noteq> []"
    by (simp_all add: overrideConfig_def)
  from getTargetURL_url_precedence [OF u d]
  have "getTargetURL overrideConfig = Inr (URL (Target overrideConfig))"
    and "getTargetURL (overrideConfig\<lparr>Target := (Target overrideConfig)\<lparr>Domain := ''other.example''\<rparr>\<rparr>) =
           getTargetURL overrideConfig"
    by blast+
  with u d show ?thesis
    by (simp add: overrideConfig_def)
qed

text \<open>
  C6, amended (address from a domain). With no URL and a non-empty domain, the result is
  \<^verbatim>\<open>wss://\<close>, then the domain without a leading \<^verbatim>\<open>https://\<close> (if it has one) and then
  without one trailing slash (if it has one), then \<^verbatim>\<open>/streaming\<close>. Such a cleaned domain
  always exists, and the result is built from it.
\<close>

theorem getTargetURL_domain:
  assumes "URL (Target cfg) = []" and "Domain (Target cfg) \<noteq> []"
  shows "(\<exists>d1 d2. without_prefix ''https://'' (Domain (Target cfg)) d1 \<and> without_suffix ''/'' d1 d2) \<and>
         (\<forall>d1 d2. without_prefix ''https://'' (Domain (Target cfg)) d1 \<longrightarrow>
                  without_suffix ''/'' d1 d2 \<longrightarrow>
                  getTargetURL cfg = Inr (''wss://'' @ d2 @ ''/streaming''))"
  using assms
  by (simp add: without_prefix_iff without_suffix_iff getTargetURL_def DefaultPath_def)

theorem getTargetURL_domain_witness:
  "URL (Target (domainConfig ''https://example.test/'')) = [] \<and>
   Domain (Target (domainConfig ''https://example.test/'')) \<noteq> [] \<and>
   without_prefix ''https://'' ''https://example.test/'' ''example.test/'' \<and>
   without_suffix ''/'' ''example.test/'' ''example.test'' \<and>
   getTargetURL (domainConfig ''https://example.test/'') = Inr ''wss://example.test/streaming''"
proof -
  have u: "URL (Target (domainConfig ''https://example.test/'')) = []"
    and d: "Domain (Target (domainConfig ''https://example.test/'')) \<noteq> []"
    by (simp_all add: domainConfig_def)
  have p: "without_prefix ''https://''
             (Domain (Target (domainConfig ''https://example.test/''))) ''example.test/''"
    by code_simp
  have s: "without_suffix ''/'' ''example.test/'' ''example.test''"
    by code_simp
  from getTargetURL_domain [OF u d] p s
  have "getTargetURL (domainConfig ''https://example.test/'') =
          Inr (''wss://'' @ ''example.test'' @ ''/streaming'')"
    by blast
  with u d p s show ?thesis by (simp add: domainConfig_def)
qed

text \<open>
  As the specification words it, any scheme prefix is stripped. A domain given with \<^verbatim>\<open>http://\<close> keeps it:
  the result is not the address of the cleaned domain.
\<close>

theorem getTargetURL_other_scheme_counterexample:
  "URL (Target (domainConfig ''http://misskey.io'')) = [] \<and>
   Domain (Target (domainConfig ''http://misskey.io'')) \<noteq> [] \<and>
   claimed_cleanDomain (Domain (Target (domainConfig ''http://misskey.io''))) = ''misskey.io'' \<and>
   getTargetURL (domainConfig ''http://misskey.io'') = Inr ''wss://http://misskey.io/streaming'' \<and>
   getTargetURL (domainConfig ''http://misskey.io'') \<noteq>
     Inr (''wss://'' @ claimed_cleanDomain (Domain (Target (domainConfig ''http://misskey.io''))) @
          ''/streaming'')"
  by (simp add: domainConfig_def getTargetURL_def TrimPrefix_def TrimSuffix_def HasPrefix_def
      HasSuffix_def DefaultPath_def claimed_stripScheme_def claimed_cleanDomain_def)

text \<open>
  C7 (the two spellings of misskey.io). With no URL, the domain \<^verbatim>\<open>misskey.io\<close> and the
  domain \<^verbatim>\<open>https://misskey.io/\<close> both resolve to \<^verbatim>\<open>wss://misskey.io/streaming\<close>,
  whatever the other settings are.
\<close>

theorem getTargetURL_misskey_io:
  "getTargetURL (cfg\<lparr>Target := \<lparr>Domain = ''misskey.io'', URL = []\<rparr>\<rparr>) =
     Inr ''wss://misskey.io/streaming'' \<and>
   getTargetURL (cfg\<lparr>Target := \<lparr>Domain = ''https://misskey.io/'', URL = []\<rparr>\<rparr>) =
     Inr ''wss://misskey.io/streaming''"
  by (simp add: getTargetURL_def TrimPrefix_def TrimSuffix_def HasPrefix_def HasSuffix_def
      DefaultPath_def)

section \<open>Runs and what they contain\<close>

lemma observers_Nil [simp]:
  "sends [] = []" "dials [] = []" "launches [] = []" "sleeps [] = []" "exits [] = []"
  by (simp_all add: sends_def dials_def launches_def sleeps_def exits_def)

lemma observers_Cons [simp]:
  "sends (e # tr) = (case e of WriteMessage p \<Rightarrow> [p] | _ \<Rightarrow> []) @ sends tr"
  "dials (e # tr) = (case e of Dial u \<Rightarrow> [u] | _ \<Rightarrow> []) @ dials tr"
  "launches (e # tr) = (case e of CombinedOutput p a \<Rightarrow> [(p, a)] | _ \<Rightarrow> []) @ launches tr"
  "sleeps (e # tr) = (case e of Sleep d \<Rightarrow> [d] | _ \<Rightarrow> []) @ sleeps tr"
  "exits (e # tr) = (case e of Exit n \<Rightarrow> [n] | _ \<Rightarrow> []) @ exits tr"
  by (simp_all add: sends_def dials_def launches_def sleeps_def exits_def)

lemma observers_append [simp]:
  "sends (a @ b) = sends a @ sends b"
  "dials (a @ b) = dials a @ dials b"
  "launches (a @ b) = launches a @ launches b"
  "sleeps (a @ b) = sleeps a @ sleeps b"
  "exits (a @ b) = exits a @ exits b"
  by (simp_all add: sends_def dials_def launches_def sleeps_def exits_def)

lemma observers_logPrintf [simp]:
  "sends (logPrintf m) = []" "dials (logPrintf m) = []" "launches (logPrintf m) = []"
  "sleeps (logPrintf m) = []" "exits (logPrintf m) = []"
  by (simp_all add: logPrintf_def)

lemma executor_observed [simp]:
  "sends (executeCommandAndReport c r) = []"
  "dials (executeCommandAndReport c r) = []"
  "sleeps (executeCommandAndReport c r) = []"
  "exits (executeCommandAndReport c r) = []"
  by (simp_all add: executeCommandAndReport_def split: list.splits option.splits prod.splits)

lemma executor_launches [simp]:
  "launches (executeCommandAndReport c r) = (case Fields c of [] \<Rightarrow> [] | p # a \<Rightarrow> [(p, a)])"
  by (simp add: executeCommandAndReport_def split: list.splits option.splits prod.splits)

section \<open>The white-space table and the tokenizer\<close>

lemma whiteSpaceRunes_table:
  "list_all (\<lambda>a. a \<noteq> [] \<and> list_all (\<lambda>b. prefix a b \<longrightarrow> a = b) whiteSpaceRunes) whiteSpaceRunes"
  by code_simp

lemma whiteSpaceRunes_prefix_free:
  "a \<in> set whiteSpaceRunes \<Longrightarrow> b \<in> set whiteSpaceRunes \<Longrightarrow> prefix a b \<Longrightarrow> a = b"
  using whiteSpaceRunes_table by (simp add: list_all_iff)

lemma leadingSpace_rune:
  assumes "w \<in> set whiteSpaceRunes"
  shows "leadingSpace (w @ s) = Some w"
proof -
  have "HasPrefix (w @ s) w" by (simp add: HasPrefix_def)
  with assms obtain x where x: "leadingSpace (w @ s) = Some x"
    unfolding leadingSpace_def
    by (cases "find (HasPrefix (w @ s)) whiteSpaceRunes") (auto simp: find_None_iff)
  then have "x \<in> set whiteSpaceRunes" and "prefix x (w @ s)"
    unfolding leadingSpace_def by (auto simp: find_Some_iff HasPrefix_iff)
  moreover have "prefix w (w @ s)" by simp
  ultimately have "x = w"
    using assms whiteSpaceRunes_prefix_free prefix_same_cases by metis
  with x show ?thesis by simp
qed

lemma leadingSpace_SomeD:
  assumes "leadingSpace s = Some w"
  shows "w \<in> set whiteSpaceRunes" and "s = w @ drop (length w) s"
proof -
  from assms have "w \<in> set whiteSpaceRunes \<and> HasPrefix s w"
    unfolding leadingSpace_def by (auto simp: find_Some_iff)
  then show "w \<in> set whiteSpaceRunes" and "s = w @ drop (length w) s"
    by (auto simp: HasPrefix_def) (metis append_take_drop_id)
qed

lemma whitespaceOnly_fields: "whitespaceOnly s \<Longrightarrow> fieldsFrom [] s = []"
proof (induction rule: whitespaceOnly.induct)
  case empty
  show ?case by simp
next
  case (space w s)
  from space.hyps(1) whiteSpaceRunes_table have "w \<noteq> []"
    by (simp add: list_all_iff)
  then obtain c r where w: "w = c # r" by (cases w) auto
  have "leadingSpace (c # r @ s) = Some w"
    using leadingSpace_rune [OF space.hyps(1), of s] w by simp
  then have "fieldsFrom [] (c # r @ s) = fieldsFrom [] (drop (length w) (c # r @ s))"
    by simp
  also have "drop (length w) (c # r @ s) = s"
    using w by simp
  finally show ?case using w space.IH by simp
qed

lemma fields_whitespaceOnly: "fieldsFrom cur s = [] \<Longrightarrow> cur = [] \<and> whitespaceOnly s"
proof (induction cur s rule: fieldsFrom.induct)
  case (1 cur)
  then show ?case by (auto split: if_splits intro: whitespaceOnly.empty)
next
  case (2 cur c s)
  show ?case
  proof (cases "leadingSpace (c # s)")
    case None
    with "2.prems" have "fieldsFrom (cur @ [c]) s = []" by simp
    with "2.IH"(1) [OF None] show ?thesis by simp
  next
    case (Some w)
    with "2.prems" have cur: "cur = []" and rest: "fieldsFrom [] (drop (length w) (c # s)) = []"
      by (auto split: if_splits)
    from "2.IH"(2) [OF Some rest] have ws: "whitespaceOnly (drop (length w) (c # s))"
      by simp
    from leadingSpace_SomeD [OF Some] have "w \<in> set whiteSpaceRunes"
      and "c # s = w @ drop (length w) (c # s)" by simp_all
    with ws have "whitespaceOnly (c # s)"
      by (metis whitespaceOnly.space)
    with cur show ?thesis by simp
  qed
qed

text \<open>The tokenizer returns no field exactly for the strings made of white space only.\<close>

lemma Fields_empty_iff: "Fields s = [] \<longleftrightarrow> whitespaceOnly s"
  unfolding Fields_def using whitespaceOnly_fields fields_whitespaceOnly by blast

lemma whitespaceOnly_example:
  "whitespaceOnly [CHR 0x20, CHR 0x09, CHR 0xC2, CHR 0xA0, CHR 0x0A]"
proof -
  have "whitespaceOnly ([CHR 0x20] @ [CHR 0x09] @ [CHR 0xC2, CHR 0xA0] @ [CHR 0x0A] @ [])"
    by (intro whitespaceOnly.intros) (simp_all add: whiteSpaceRunes_def)
  then show ?thesis by simp
qed

lemma Fields_script: "Fields ''./script.sh'' = [''./script.sh'']"
  by code_simp

section \<open>Recovery executor: properties\<close>

text \<open>
  C8 (empty recovery command). For a command string that is empty or made of white space
  only, the executor launches no process, reports that the command string is empty (to the
  log and to the telemetry sink) and returns: its calls are these two and nothing else, so
  there is no exit, whatever the environment would have answered to a launch.
\<close>

theorem executeCommandAndReport_blank:
  assumes "whitespaceOnly commandStr"
  shows "executeCommandAndReport commandStr r =
           [Log (Sprintf ''Error: Recovery command string is empty'' []),
            CaptureMessage (Sprintf ''Error: Recovery command string is empty'' [])] \<and>
         launches (executeCommandAndReport commandStr r) = [] \<and>
         exits (executeCommandAndReport commandStr r) = []"
proof -
  from assms have "Fields commandStr = []"
    by (simp add: Fields_empty_iff)
  then show ?thesis
    by (simp add: executeCommandAndReport_def logPrintf_def)
qed

theorem executeCommandAndReport_blank_witness:
  "whitespaceOnly [CHR 0x20, CHR 0x09, CHR 0xC2, CHR 0xA0, CHR 0x0A] \<and>
   executeCommandAndReport [CHR 0x20, CHR 0x09, CHR 0xC2, CHR 0xA0, CHR 0x0A]
       (\<lambda>_ _. (''launched'', None)) =
     [Log (Sprintf ''Error: Recovery command string is empty'' []),
      CaptureMessage (Sprintf ''Error: Recovery command string is empty'' [])] \<and>
   launches (executeCommandAndReport [CHR 0x20, CHR 0x09, CHR 0xC2, CHR 0xA0, CHR 0x0A]
       (\<lambda>_ _. (''launched'', None))) = []"
  using executeCommandAndReport_blank [OF whitespaceOnly_example, of "\<lambda>_ _. (''launched'', None)"]
    whitespaceOnly_example
  by simp

section \<open>Monitoring session: properties\<close>

lemma loop_result_step:
  "loop_result d (tr @ [SetReadDeadline d, ReadMessage]) y \<Longrightarrow> loop_result d tr y"
  by (auto simp: loop_result_def)

text \<open>Whatever the read loop returns is one of its two errors, after deadlines and reads only.\<close>

lemma readLoop_result:
  assumes "readLoop io d i tr = Some y"
  shows "loop_result d tr y"
proof (rule readLoop.raw_induct [where P = "\<lambda>io d i tr y. loop_result d tr y", OF _ assms])
  fix f io d i tr y
  assume IH: "\<And>io d i tr y. f io d i tr = Some y \<Longrightarrow> loop_result d tr y"
    and step: "(case setReadDeadline io i of
        Some err \<Rightarrow>
          Some (tr @ [SetReadDeadline d], Some (Errorf ''failed to set read deadline: %w'' (Some err)))
      | None \<Rightarrow>
          (case readMessage io i of
             Some err \<Rightarrow>
               Some (tr @ [SetReadDeadline d, ReadMessage],
                     Some (Errorf ''read timeout or disconnection: %w'' (Some err)))
           | None \<Rightarrow> f io d (Suc i) (tr @ [SetReadDeadline d, ReadMessage]))) = Some y"
  show "loop_result d tr y"
  proof (cases "setReadDeadline io i")
    case (Some e)
    with step show ?thesis by (auto simp: loop_result_def)
  next
    case None
    note deadline = this
    show ?thesis
    proof (cases "readMessage io i")
      case (Some e)
      with step deadline show ?thesis by (auto simp: loop_result_def)
    next
      case None
      with step deadline have "f io d (Suc i) (tr @ [SetReadDeadline d, ReadMessage]) = Some y"
        by simp
      then show ?thesis by (rule loop_result_step [OF IH])
    qed
  qed
qed

text \<open>The loop returns as soon as a deadline update or a read fails.\<close>

lemma readLoop_returns:
  assumes "setReadDeadline io (i + n) \<noteq> None \<or> readMessage io (i + n) \<noteq> None"
  shows "\<exists>y. readLoop io d i tr = Some y"
  using assms
proof (induction n arbitrary: i tr)
  case 0
  then show ?case
    by (subst readLoop.simps) (auto split: option.splits)
next
  case (Suc n)
  from Suc.prems
  have "setReadDeadline io (Suc i + n) \<noteq> None \<or> readMessage io (Suc i + n) \<noteq> None"
    by simp
  from Suc.IH [OF this]
  have "\<exists>y. readLoop io d (Suc i) (tr @ [SetReadDeadline d, ReadMessage]) = Some y" .
  then show ?case
    by (subst readLoop.simps) (auto split: option.splits)
qed

text \<open>While every deadline update and every read succeeds, the loop does not return.\<close>

lemma readLoop_healthy:
  assumes "\<forall>j\<ge>i. setReadDeadline io j = None \<and> readMessage io j = None"
  shows "readLoop io d i tr = None"
proof (rule ccontr)
  assume "readLoop io d i tr \<noteq> None"
  then obtain y where y: "readLoop io d i tr = Some y" by auto
  have "\<exists>j\<ge>i. setReadDeadline io j \<noteq> None \<or> readMessage io j \<noteq> None"
  proof (rule readLoop.raw_induct
      [where P = "\<lambda>io d i tr y. \<exists>j\<ge>i. setReadDeadline io j \<noteq> None \<or> readMessage io j \<noteq> None",
        OF _ y])
    fix f io d i tr y
    assume IH: "\<And>io d i tr y. f io d i tr = Some y \<Longrightarrow>
        \<exists>j\<ge>i. setReadDeadline io j \<noteq> None \<or> readMessage io j \<noteq> None"
      and step: "(case setReadDeadline io i of
        Some err \<Rightarrow>
          Some (tr @ [SetReadDeadline d], Some (Errorf ''failed to set read deadline: %w'' (Some err)))
      | None \<Rightarrow>
          (case readMessage io i of
             Some err \<Rightarrow>
               Some (tr @ [SetReadDeadline d, ReadMessage],
                     Some (Errorf ''read timeout or disconnection: %w'' (Some err)))
           | None \<Rightarrow> f io d (Suc i) (tr @ [SetReadDeadline d, ReadMessage]))) = Some y"
    show "\<exists>j\<ge>i. setReadDeadline io j \<noteq> None \<or> readMessage io j \<noteq> None"
    proof (cases "setReadDeadline io i = None \<and> readMessage io i = None")
      case True
      with step have "f io d (Suc i) (tr @ [SetReadDeadline d, ReadMessage]) = Some y"
        by simp
      from IH [OF this] obtain j where "Suc i \<le> j"
        and "setReadDeadline io j \<noteq> None \<or> readMessage io j \<noteq> None" by blast
      then show ?thesis by (intro exI [of _ j]) simp
    next
      case False
      then show ?thesis by (intro exI [of _ i]) simp
    qed
  qed
  then obtain j where "i \<le> j"
    and "setReadDeadline io j \<noteq> None \<or> readMessage io j \<noteq> None"
    by blast
  with assms show False by simp
qed

lemma session_connect_failed:
  "dial io url = Some e \<Longrightarrow>
   startMonitoringSession url cfg io =
     Some (logPrintf (Sprintf ''Connecting to Misskey Streaming API...'' []) @ [Dial url],
           Some (Errorf ''connection failed: %w'' (Some e)))"
  by (simp add: startMonitoringSession_def)

lemma session_timeoutAt_2:
  "startMonitoringSession ''wss://misskey.io/streaming'' (domainConfig ''misskey.io'') (timeoutAt 2) =
     Some (logPrintf (Sprintf ''Connecting to Misskey Streaming API...'' []) @
           [Dial ''wss://misskey.io/streaming'', WriteMessage SubscribePayload] @
           logPrintf (Sprintf ''Monitoring started (Listening for messages)...'' []) @
           [SetReadDeadline 10000000000, ReadMessage, SetReadDeadline 10000000000, ReadMessage,
            SetReadDeadline 10000000000, ReadMessage, Close],
           Some (Errorf ''read timeout or disconnection: %w'' (Some (LibError ''i/o timeout''))))"
  by (simp add: startMonitoringSession_def timeoutAt_def readLoop.simps domainConfig_def
      timeoutDuration_def Second_def logPrintf_def)

text \<open>
  C2 (a session ends in an error). Whenever \<^verbatim>\<open>startMonitoringSession\<close> returns, it returns
  a non-nil error, and the error is one of the four built at its returns: connection failed,
  subscribe request failed, failed to set read deadline, read timeout or disconnection.
\<close>

theorem session_ends_in_error:
  assumes "startMonitoringSession url cfg io = Some (tr, r)"
  shows "r \<noteq> None \<and>
         (\<exists>e. r = Some (Errorf ''connection failed: %w'' (Some e)) \<or>
              r = Some (Errorf ''subscribe request failed: %w'' (Some e)) \<or>
              r = Some (Errorf ''failed to set read deadline: %w'' (Some e)) \<or>
              r = Some (Errorf ''read timeout or disconnection: %w'' (Some e)))"
proof (cases "dial io url")
  case (Some e)
  with assms show ?thesis
    by (auto simp: startMonitoringSession_def)
next
  case None
  note dialled = this
  show ?thesis
  proof (cases "writeMessage io SubscribePayload")
    case (Some e)
    with assms dialled show ?thesis
      by (auto simp: startMonitoringSession_def)
  next
    case None
    with assms dialled obtain y where
      "readLoop io (timeoutDuration cfg) 0
         (logPrintf (Sprintf ''Connecting to Misskey Streaming API...'' []) @ [Dial url] @
          [WriteMessage SubscribePayload] @
          logPrintf (Sprintf ''Monitoring started (Listening for messages)...'' [])) = Some y"
      and "r = snd y"
      by (auto simp: startMonitoringSession_def)
    with readLoop_result [of io "timeoutDuration cfg" 0 _ y] show ?thesis
      by (auto simp: loop_result_def)
  qed
qed

theorem session_ends_in_error_witness:
  "startMonitoringSession ''wss://misskey.io/streaming'' (domainConfig ''misskey.io'') (timeoutAt 2) =
     Some (logPrintf (Sprintf ''Connecting to Misskey Streaming API...'' []) @
           [Dial ''wss://misskey.io/streaming'', WriteMessage SubscribePayload] @
           logPrintf (Sprintf ''Monitoring started (Listening for messages)...'' []) @
           [SetReadDeadline 10000000000, ReadMessage, SetReadDeadline 10000000000, ReadMessage,
            SetReadDeadline 10000000000, ReadMessage, Close],
           Some (Errorf ''read timeout or disconnection: %w'' (Some (LibError ''i/o timeout'')))) \<and>
   Some (Errorf ''read timeout or disconnection: %w'' (Some (LibError ''i/o timeout''))) \<noteq> None"
  using session_ends_in_error [OF session_timeoutAt_2] session_timeoutAt_2
  by simp

text \<open>A session returns if and only if some deadline update or read fails, or it never
  reaches the loop.\<close>

lemma session_runs_forever:
  assumes "dial io url = None" and "writeMessage io SubscribePayload = None"
    and "\<forall>j. setReadDeadline io j = None \<and> readMessage io j = None"
  shows "startMonitoringSession url cfg io = None"
  using assms readLoop_healthy [of 0 io]
  by (simp add: startMonitoringSession_def)

lemma session_returns:
  assumes "dial io url \<noteq> None \<or> writeMessage io SubscribePayload \<noteq> None \<or>
           setReadDeadline io n \<noteq> None \<or> readMessage io n \<noteq> None"
  shows "\<exists>y. startMonitoringSession url cfg io = Some y"
proof (cases "dial io url = None \<and> writeMessage io SubscribePayload = None")
  case True
  with assms have "setReadDeadline io (0 + n) \<noteq> None \<or> readMessage io (0 + n) \<noteq> None"
    by simp
  from readLoop_returns [OF this] obtain y where
    "readLoop io (timeoutDuration cfg) 0
       (logPrintf (Sprintf ''Connecting to Misskey Streaming API...'' []) @ [Dial url] @
        [WriteMessage SubscribePayload] @
        logPrintf (Sprintf ''Monitoring started (Listening for messages)...'' [])) = Some y"
    by blast
  with True show ?thesis
    by (simp add: startMonitoringSession_def)
next
  case False
  then show ?thesis
    by (auto simp: startMonitoringSession_def Let_def split: option.splits)
qed

lemma session_sends:
  assumes "startMonitoringSession url cfg io = Some (tr, r)"
  shows "sends tr = (if dial io url = None then [SubscribePayload] else [])"
proof (cases "dial io url")
  case (Some e)
  with assms show ?thesis
    by (auto simp: startMonitoringSession_def)
next
  case None
  note dialled = this
  show ?thesis
  proof (cases "writeMessage io SubscribePayload")
    case (Some e)
    with assms dialled show ?thesis
      by (auto simp: startMonitoringSession_def)
  next
    case None
    with assms dialled obtain y where
      loop: "readLoop io (timeoutDuration cfg) 0
         (logPrintf (Sprintf ''Connecting to Misskey Streaming API...'' []) @ [Dial url] @
          [WriteMessage SubscribePayload] @
          logPrintf (Sprintf ''Monitoring started (Listening for messages)...'' [])) = Some y"
      and tr: "tr = fst y @ [Close]"
      by (auto simp: startMonitoringSession_def)
    from readLoop_result [OF loop] obtain ks where
      "fst y = (logPrintf (Sprintf ''Connecting to Misskey Streaming API...'' []) @ [Dial url] @
          [WriteMessage SubscribePayload] @
          logPrintf (Sprintf ''Monitoring started (Listening for messages)...'' [])) @ ks"
      and "sends ks = []"
      by (auto simp: loop_result_def)
    with tr dialled show ?thesis
      by simp
  qed
qed

section \<open>Supervisor: a session whose connect fails\<close>

text \<open>
  C3, amended (connect failure). When the dial fails with \<open>e\<close>, the session returns the
  error \<^verbatim>\<open>connection failed\<close> wrapping \<open>e\<close>, and the iteration of the supervisor consists
  of the session's calls \<open>tr0\<close>, the reports \<open>pre\<close>, the calls of the recovery executor on the
  configured command, and the calls \<open>post\<close>. No frame is written in the whole iteration. The
  recovery executor is invoked once: it launches the command once when the command string
  has a token, and launches nothing when it has none. The only dial is the session's, the
  only sleep is the cooldown, in \<open>post\<close>, and the next iteration's calls come after it.
\<close>

theorem connect_failure_cycle:
  assumes "dial (conn io) url = Some e"
  shows "\<exists>tr0 pre post.
     startMonitoringSession url cfg (conn io) =
       Some (tr0, Some (Errorf ''connection failed: %w'' (Some e))) \<and>
     main_cycle url cfg cd io =
       Some (tr0 @ pre @ executeCommandAndReport (Command cfg) (run io) @ post) \<and>
     sends (tr0 @ pre @ executeCommandAndReport (Command cfg) (run io) @ post) = [] \<and>
     launches (tr0 @ pre @ executeCommandAndReport (Command cfg) (run io) @ post) =
       (case Fields (Command cfg) of [] \<Rightarrow> [] | p # a \<Rightarrow> [(p, a)]) \<and>
     launches tr0 = [] \<and> launches pre = [] \<and> launches post = [] \<and>
     dials tr0 = [url] \<and> dials pre = [] \<and> dials post = [] \<and>
     sleeps tr0 = [] \<and> sleeps pre = [] \<and> sleeps post = [cd] \<and>
     (\<forall>ios. main_loop url cfg cd (io # ios) =
        map_option ((@) (tr0 @ pre @ executeCommandAndReport (Command cfg) (run io) @ post))
          (main_loop url cfg cd ios))"
proof -
  let ?tr0 = "logPrintf (Sprintf ''Connecting to Misskey Streaming API...'' []) @ [Dial url]"
  let ?err = "Some (Errorf ''connection failed: %w'' (Some e))"
  let ?pre = "logPrintf (Sprintf ''Monitor session ended with error: %v'' [ArgError ?err]) @
      [ScopedCaptureException LevelError [] ?err] @
      logPrintf (Sprintf ''Attempting to execute command...'' [])"
  let ?post = "logPrintf (Sprintf ''>>> Waiting %s before reconnecting...'' [ArgDuration cd]) @
      [SentryFlush (5 * Second), Sleep cd] @
      logPrintf (Sprintf ''>>> Cooldown finished. Retrying connection...'' [])"
  have session: "startMonitoringSession url cfg (conn io) = Some (?tr0, ?err)"
    by (rule session_connect_failed [OF assms])
  then have cycle: "main_cycle url cfg cd io =
      Some (?tr0 @ ?pre @ executeCommandAndReport (Command cfg) (run io) @ ?post)"
    by (simp add: main_cycle_def)
  have obs: "sends (?tr0 @ ?pre @ executeCommandAndReport (Command cfg) (run io) @ ?post) = []"
    "launches (?tr0 @ ?pre @ executeCommandAndReport (Command cfg) (run io) @ ?post) =
       (case Fields (Command cfg) of [] \<Rightarrow> [] | p # a \<Rightarrow> [(p, a)])"
    "launches ?tr0 = []" "launches ?pre = []" "launches ?post = []"
    "dials ?tr0 = [url]" "dials ?pre = []" "dials ?post = []"
    "sleeps ?tr0 = []" "sleeps ?pre = []" "sleeps ?post = [cd]"
    by simp_all
  have loop: "\<forall>ios. main_loop url cfg cd (io # ios) =
        map_option ((@) (?tr0 @ ?pre @ executeCommandAndReport (Command cfg) (run io) @ ?post))
          (main_loop url cfg cd ios)"
    using cycle by simp
  from session cycle obs loop show ?thesis
    by blast
qed

theorem connect_failure_cycle_witness:
  "dial (conn refusing) ''wss://misskey.io/streaming'' = Some (LibError ''connection refused'') \<and>
   map_option sends
     (main_cycle ''wss://misskey.io/streaming'' (domainConfig ''misskey.io'') (5 * Minute) refusing) =
     Some [] \<and>
   map_option launches
     (main_cycle ''wss://misskey.io/streaming'' (domainConfig ''misskey.io'') (5 * Minute) refusing) =
     Some [(''./script.sh'', [])] \<and>
   map_option sleeps
     (main_cycle ''wss://misskey.io/streaming'' (domainConfig ''misskey.io'') (5 * Minute) refusing) =
     Some [5 * Minute]"
proof -
  have d: "dial (conn refusing) ''wss://misskey.io/streaming'' = Some (LibError ''connection refused'')"
    by (simp add: refusing_def)
  have c: "Command (domainConfig ''misskey.io'') = ''./script.sh''"
    by (simp add: domainConfig_def)
  from connect_failure_cycle [OF d, of "domainConfig ''misskey.io''" "5 * Minute"]
  obtain tr0 pre post where
    "main_cycle ''wss://misskey.io/streaming'' (domainConfig ''misskey.io'') (5 * Minute) refusing =
       Some (tr0 @ pre @
         executeCommandAndReport (Command (domainConfig ''misskey.io'')) (run refusing) @ post)"
    and "sends (tr0 @ pre @
         executeCommandAndReport (Command (domainConfig ''misskey.io'')) (run refusing) @ post) = []"
    and "launches (tr0 @ pre @
         executeCommandAndReport (Command (domainConfig ''misskey.io'')) (run refusing) @ post) =
       (case Fields (Command (domainConfig ''misskey.io'')) of [] \<Rightarrow> [] | p # a \<Rightarrow> [(p, a)])"
    and "sleeps tr0 = []" and "sleeps pre = []" and "sleeps post = [5 * Minute]"
    by blast
  with d show ?thesis
    by (simp add: c Fields_script)
qed

text \<open>
  As the specification words it, the recovery command runs exactly once. With an empty command
  string and a failing dial, the iteration launches no process.
\<close>

theorem connect_failure_blank_command_counterexample:
  "dial (conn refusing) ''wss://misskey.io/streaming'' = Some (LibError ''connection refused'') \<and>
   map_option launches
     (main_cycle ''wss://misskey.io/streaming'' (domainConfig ''misskey.io''\<lparr>Command := []\<rparr>)
        (5 * Minute) refusing) = Some []"
  by (simp add: refusing_def main_cycle_def startMonitoringSession_def domainConfig_def Fields_def)

section \<open>The subscription payload\<close>

lemma parse_SubscribePayload:
  "parseJSON SubscribePayload =
     Some (JObject
       [(''type'', JString ''connect''),
        (''body'', JObject
           [(''channel'', JString ''globalTimeline''),
            (''id'', JString ''1''),
            (''params'', JObject [(''withRenotes'', JBool True), (''minimize'', JBool True)])])])"
  by code_simp

text \<open>
  C9 (the subscription payload read back). A session that returns has written at most one
  frame, the fixed payload, and exactly that one when the dial succeeded. Read as a JSON
  text, the payload is an object whose \<^verbatim>\<open>body\<close> has the channel \<^verbatim>\<open>globalTimeline\<close>, the
  id \<^verbatim>\<open>"1"\<close> (a string), and \<^verbatim>\<open>params\<close> in which \<^verbatim>\<open>withRenotes\<close> and \<^verbatim>\<open>minimize\<close> are
  both true.
\<close>

theorem subscribe_payload_structure:
  "(\<forall>url cfg io tr r. startMonitoringSession url cfg io = Some (tr, r) \<longrightarrow>
      sends tr = (if dial io url = None then [SubscribePayload] else [])) \<and>
   (\<exists>msg body params.
      parseJSON SubscribePayload = Some msg \<and>
      json_member ''body'' msg = Some body \<and>
      json_member ''channel'' body = Some (JString ''globalTimeline'') \<and>
      json_member ''id'' body = Some (JString ''1'') \<and>
      json_member ''params'' body = Some params \<and>
      json_member ''withRenotes'' params = Some (JBool True) \<and>
      json_member ''minimize'' params = Some (JBool True))"
proof (intro conjI allI impI)
  fix url cfg io tr r
  assume "startMonitoringSession url cfg io = Some (tr, r)"
  then show "sends tr = (if dial io url = None then [SubscribePayload] else [])"
    by (rule session_sends)
next
  show "\<exists>msg body params.
      parseJSON SubscribePayload = Some msg \<and>
      json_member ''body'' msg = Some body \<and>
      json_member ''channel'' body = Some (JString ''globalTimeline'') \<and>
      json_member ''id'' body = Some (JString ''1'') \<and>
      json_member ''params'' body = Some params \<and>
      json_member ''withRenotes'' params = Some (JBool True) \<and>
      json_member ''minimize'' params = Some (JBool True)"
    by (simp add: parse_SubscribePayload)
qed

theorem subscribe_payload_structure_witness:
  "startMonitoringSession ''wss://misskey.io/streaming'' (domainConfig ''misskey.io'') (timeoutAt 2) \<noteq> None \<and>
   map_option (sends \<circ> fst)
     (startMonitoringSession ''wss://misskey.io/streaming'' (domainConfig ''misskey.io'') (timeoutAt 2)) =
     Some [SubscribePayload]"
proof -
  from subscribe_payload_structure
  have "\<forall>url cfg io tr r. startMonitoringSession url cfg io = Some (tr, r) \<longrightarrow>
      sends tr = (if dial io url = None then [SubscribePayload] else [])"
    by (rule conjunct1)
  from this [rule_format, OF session_timeoutAt_2]
  have "sends (logPrintf (Sprintf ''Connecting to Misskey Streaming API...'' []) @
           [Dial ''wss://misskey.io/streaming'', WriteMessage SubscribePayload] @
           logPrintf (Sprintf ''Monitoring started (Listening for messages)...'' []) @
           [SetReadDeadline 10000000000, ReadMessage, SetReadDeadline 10000000000, ReadMessage,
            SetReadDeadline 10000000000, ReadMessage, Close]) =
        (if dial (timeoutAt 2) ''wss://misskey.io/streaming'' = None then [SubscribePayload] else [])" .
  moreover have "dial (timeoutAt 2) ''wss://misskey.io/streaming'' = None"
    by (simp add: timeoutAt_def)
  ultimately show ?thesis
    by (simp only: session_timeoutAt_2 option.map comp_apply fst_conv if_True) simp
qed

section \<open>Startup without a configuration file\<close>

text \<open>
  C10 (configuration file absent). When \<^verbatim>\<open>os.Stat\<close> reports that the configuration file
  does not exist, \<^verbatim>\<open>main\<close> writes the template, logs that the file was not found and exits
  with status 1, and does nothing else: no address is dialled, whatever environments the
  loop would have met. The result of the write plays no part: with any other behaviour of
  \<^verbatim>\<open>os.WriteFile\<close> the run is the same.
\<close>

theorem main_config_absent:
  assumes "osStat os configPath = StatNotExist"
  shows "main configPath os ios =
           Some [Stat configPath, WriteFile configPath DefaultConfigTemplate,
                 Log (Sprintf ''Configuration file not found. Created sample at: %s''
                        [ArgString configPath]),
                 Exit 1] \<and>
         (\<forall>w. main configPath (os\<lparr>osWriteFile := w\<rparr>) ios = main configPath os ios) \<and>
         map_option dials (main configPath os ios) = Some [] \<and>
         map_option exits (main configPath os ios) = Some [1]"
  using assms by (simp add: main_def log_Fatalf_def)

theorem main_config_absent_witness:
  "osStat readOnlyEmpty ''config.yaml'' = StatNotExist \<and>
   osWriteFile readOnlyEmpty ''config.yaml'' DefaultConfigTemplate =
     Some (LibError ''read-only file system'') \<and>
   main ''config.yaml'' readOnlyEmpty [refusing] =
     Some [Stat ''config.yaml'', WriteFile ''config.yaml'' DefaultConfigTemplate,
           Log (Sprintf ''Configuration file not found. Created sample at: %s''
                  [ArgString ''config.yaml'']),
           Exit 1]"
proof -
  have s: "osStat readOnlyEmpty ''config.yaml'' = StatNotExist"
    by (simp add: readOnlyEmpty_def)
  from main_config_absent [OF s, of "[refusing]"] s show ?thesis
    by (simp add: readOnlyEmpty_def)
qed

end
